theory Spec2Isabelle
  imports Complex_Main
begin

section \<open>Vectors and quaternions\<close>

text \<open>
  The dice of \<^verbatim>\<open>src/physics/dice.js\<close> read their orientation from a Three.js mesh.
  JavaScript numbers are modelled as real numbers: rounding is outside the model.
\<close>

record Vector3 =
  vx :: real
  vy :: real
  vz :: real

record Quaternion =
  qx :: real
  qy :: real
  qz :: real
  qw :: real

text \<open>
  Modelled from the spec: \<^verbatim>\<open>Vector3.applyQuaternion\<close> belongs to the Three.js library,
  which is not under \<^verbatim>\<open>src/\<close>. The spec calls it "applying \<^verbatim>\<open>orientation\<close>" to a
  vector: the rotation of the vector by the unit quaternion. The formula is the one of
  Three.js 0.160, the version \<^verbatim>\<open>config.js\<close> loads (\<open>t = 2 (q.xyz \<times> v)\<close>,
  result \<open>v + q.w t + q.xyz \<times> t\<close>).
\<close>

definition applyQuaternion :: "Vector3 \<Rightarrow> Quaternion \<Rightarrow> Vector3" where
  "applyQuaternion v q =
     (let tx = 2 * (qy q * vz v - qz q * vy v);
          ty = 2 * (qz q * vx v - qx q * vz v);
          tz = 2 * (qx q * vy v - qy q * vx v)
      in \<lparr> vx = vx v + qw q * tx + qy q * tz - qz q * ty,
           vy = vy v + qw q * ty + qz q * tx - qx q * tz,
           vz = vz v + qw q * tz + qx q * ty - qy q * tx \<rparr>)"

text \<open>\<^verbatim>\<open>Vector3.dot\<close> of the same library: the scalar product.\<close>

definition dot :: "Vector3 \<Rightarrow> Vector3 \<Rightarrow> real" where
  "dot a b = vx a * vx b + vy a * vy b + vz a * vz b"

text \<open>
  Modelled from the spec: the scenarios of the spec name orientations by an axis and an
  angle ("180 degrees about X"). The quaternion of such a rotation is
  \<^verbatim>\<open>Quaternion.setFromAxisAngle\<close> of Three.js (not under \<^verbatim>\<open>src/\<close>): the axis scaled by
  the sine of half the angle, and the cosine of half the angle.
\<close>

definition setFromAxisAngle :: "Vector3 \<Rightarrow> real \<Rightarrow> Quaternion" where
  "setFromAxisAngle axis angle =
     (let halfAngle = angle / 2; s = sin halfAngle
      in \<lparr> qx = vx axis * s, qy = vy axis * s, qz = vz axis * s, qw = cos halfAngle \<rparr>)"

definition isUnit :: "Quaternion \<Rightarrow> bool" where
  "isUnit q = (qx q * qx q + qy q * qy q + qz q * qz q + qw q * qw q = 1)"

definition opposite :: "Vector3 \<Rightarrow> Vector3 \<Rightarrow> bool" where
  "opposite a b = (vx a = - vx b \<and> vy a = - vy b \<and> vz a = - vz b)"


section \<open>The die: \<^verbatim>\<open>createDice\<close>\<close>

text \<open>
  \<^verbatim>\<open>const faceNumbers = [1, 6, 2, 5, 3, 4]\<close> (right, left, top, bottom, front, back):
  the label of each material of the box, in the order of the faces of a box geometry.
\<close>

definition faceNumbers :: "nat list" where
  "faceNumbers = [1, 6, 2, 5, 3, 4]"

text \<open>The table \<^verbatim>\<open>normals\<close> of \<^verbatim>\<open>getCurrentValue\<close>, in the same order.\<close>

definition normals :: "Vector3 list" where
  "normals =
     [\<lparr> vx = 1, vy = 0, vz = 0 \<rparr>,
      \<lparr> vx = - 1, vy = 0, vz = 0 \<rparr>,
      \<lparr> vx = 0, vy = 1, vz = 0 \<rparr>,
      \<lparr> vx = 0, vy = - 1, vz = 0 \<rparr>,
      \<lparr> vx = 0, vy = 0, vz = 1 \<rparr>,
      \<lparr> vx = 0, vy = 0, vz = - 1 \<rparr>]"

text \<open>
  \<^verbatim>\<open>normals.forEach((normal, index) => { ... })\<close>: the loop state is the pair of the
  local variables \<^verbatim>\<open>maxAlignment\<close> and \<^verbatim>\<open>faceIndex\<close>; the comparison is strict.
\<close>

fun forEach_normals ::
  "Vector3 \<Rightarrow> Vector3 list \<Rightarrow> nat \<Rightarrow> real \<times> nat \<Rightarrow> real \<times> nat" where
  "forEach_normals upVector [] index st = st"
| "forEach_normals upVector (normal # rest) index (maxAlignment, faceIndex) =
     (let alignment = dot upVector normal
      in if alignment > maxAlignment
         then forEach_normals upVector rest (Suc index) (alignment, index)
         else forEach_normals upVector rest (Suc index) (maxAlignment, faceIndex))"

text \<open>Reading an array: out of range, JavaScript gives \<^verbatim>\<open>undefined\<close>, here \<open>None\<close>.\<close>

definition element :: "'a list \<Rightarrow> nat \<Rightarrow> 'a option" where
  "element xs i = (if i < length xs then Some (xs ! i) else None)"

text \<open>
  \<^verbatim>\<open>getCurrentValue\<close>: the argument is \<^verbatim>\<open>diceMesh.quaternion\<close>. The vector (0,1,0) is
  rotated by it, and the rotated vector is compared with every entry of \<^verbatim>\<open>normals\<close>.
\<close>

definition getCurrentValue :: "Quaternion \<Rightarrow> nat option" where
  "getCurrentValue diceRotation =
     (let upVector = applyQuaternion \<lparr> vx = 0, vy = 1, vz = 0 \<rparr> diceRotation;
          (maxAlignment, faceIndex) = forEach_normals upVector normals 0 (- 1, 0)
      in element faceNumbers faceIndex)"

text \<open>
  The part of \<^verbatim>\<open>getCurrentValue\<close> that follows the computation of \<^verbatim>\<open>upVector\<close>:
  the selection loop and the lookup of the label, for any vector in the place of
  \<^verbatim>\<open>upVector\<close>.
\<close>

definition selectFace :: "Vector3 \<Rightarrow> nat option" where
  "selectFace upVector =
     (let (maxAlignment, faceIndex) = forEach_normals upVector normals 0 (- 1, 0)
      in element faceNumbers faceIndex)"

text \<open>
  The alignment the loop computes for the face at an index of \<^verbatim>\<open>normals\<close>.
\<close>

definition faceAlignment :: "Quaternion \<Rightarrow> nat \<Rightarrow> real" where
  "faceAlignment diceRotation index =
     dot (applyQuaternion \<lparr> vx = 0, vy = 1, vz = 0 \<rparr> diceRotation) (normals ! index)"

text \<open>
  The alignment in the words of the spec: the local normal of the face is transformed
  into world space by applying the orientation, and the result is multiplied with the
  world-up vector (0,1,0).
\<close>

definition worldAlignment_spec :: "Quaternion \<Rightarrow> nat \<Rightarrow> real" where
  "worldAlignment_spec orientation index =
     dot (applyQuaternion (normals ! index) orientation) \<lparr> vx = 0, vy = 1, vz = 0 \<rparr>"

text \<open>
  JavaScript values as \<^verbatim>\<open>isAtRest\<close> meets them: a number, or \<^verbatim>\<open>undefined\<close>. An
  object is the map from the names of its properties to their values; reading a
  property the object does not have gives \<^verbatim>\<open>undefined\<close>. In a comparison with a
  number, \<^verbatim>\<open>undefined\<close> is converted to \<^verbatim>\<open>NaN\<close>, and every comparison with
  \<^verbatim>\<open>NaN\<close> is false.
\<close>

datatype jsval = Undefined | Number real

type_synonym jsobject = "string \<rightharpoonup> jsval"

definition getProperty :: "jsobject \<Rightarrow> string \<Rightarrow> jsval" where
  "getProperty ob name = (case ob name of None \<Rightarrow> Undefined | Some v \<Rightarrow> v)"

definition less_number :: "jsval \<Rightarrow> real \<Rightarrow> bool" where
  "less_number a b = (case a of Undefined \<Rightarrow> False | Number x \<Rightarrow> x < b)"

text \<open>
  The physics engine (Rapier 0.15.0, named in \<^verbatim>\<open>config.js\<close>) is not under \<^verbatim>\<open>src/\<close>.
  A vector it returns is an object with the three properties \<^verbatim>\<open>x\<close>, \<^verbatim>\<open>y\<close> and
  \<^verbatim>\<open>z\<close> and no other: this is how \<^verbatim>\<open>dice.js\<close> itself reads such a vector
  (\<^verbatim>\<open>pos.x, pos.y, pos.z\<close>) and builds one (\<^verbatim>\<open>new RAPIER.Vector3(x, y, z)\<close>).
\<close>

definition rapierVector :: "Vector3 \<Rightarrow> jsobject" where
  "rapierVector v = [''x'' \<mapsto> Number (vx v), ''y'' \<mapsto> Number (vy v), ''z'' \<mapsto> Number (vz v)]"

text \<open>
  \<^verbatim>\<open>isAtRest\<close>: the two arguments are the velocities \<^verbatim>\<open>body.linvel()\<close> and
  \<^verbatim>\<open>body.angvel()\<close>; the method reads the property \<^verbatim>\<open>length\<close> of each and compares
  it with the local constants.
\<close>

definition isAtRest :: "Vector3 \<Rightarrow> Vector3 \<Rightarrow> bool" where
  "isAtRest linvel angvel =
     (let velocityThreshold = 0.1;
          angularVelocityThreshold = 0.1
      in less_number (getProperty (rapierVector linvel) ''length'') velocityThreshold \<and>
         less_number (getProperty (rapierVector angvel) ''length'') angularVelocityThreshold)"

text \<open>
  Modelled from the spec: the linear and the angular speed of a body are the
  magnitudes of its linear and angular velocity.
\<close>

definition magnitude :: "Vector3 \<Rightarrow> real" where
  "magnitude v = sqrt (dot v v)"

text \<open>
  The predicate in the words of the spec, with the thresholds as arguments:
  true iff \<open>linearSpeed < linearThreshold\<close> and \<open>angularSpeed < angularThreshold\<close>.
\<close>

definition isSettled_spec :: "real \<Rightarrow> real \<Rightarrow> real \<Rightarrow> real \<Rightarrow> bool" where
  "isSettled_spec linearSpeed angularSpeed linearThreshold angularThreshold =
     (linearSpeed < linearThreshold \<and> angularSpeed < angularThreshold)"


section \<open>\<^verbatim>\<open>getCurrentValue\<close> on a store of objects\<close>

text \<open>
  \<^verbatim>\<open>getCurrentValue\<close> creates vectors with \<^verbatim>\<open>new THREE.Vector3\<close> and
  \<^verbatim>\<open>applyQuaternion\<close> overwrites the vector it is called on. To say what the call
  leaves untouched, the objects live in a store: a reference is an index of the store,
  \<^verbatim>\<open>new\<close> appends an object, and a method that writes \<^verbatim>\<open>this\<close> updates the store
  at the reference. A read of the wrong kind of object is a \<^verbatim>\<open>TypeError\<close>, here
  \<open>None\<close>.
\<close>

datatype obj = Vec Vector3 | Quat Quaternion | Arr "nat list"

type_synonym store = "obj list"

definition new :: "store \<Rightarrow> obj \<Rightarrow> nat \<times> store" where
  "new h ob = (length h, h @ [ob])"

fun new_all :: "store \<Rightarrow> obj list \<Rightarrow> nat list \<times> store" where
  "new_all h [] = ([], h)"
| "new_all h (ob # obs) =
     (let (a, h1) = new h ob; (as, h2) = new_all h1 obs in (a # as, h2))"

text \<open>\<^verbatim>\<open>this.applyQuaternion(q)\<close>: reads both objects and writes \<^verbatim>\<open>this\<close>.\<close>

definition applyQuaternion_store :: "store \<Rightarrow> nat \<Rightarrow> nat \<Rightarrow> store option" where
  "applyQuaternion_store h this q =
     (case (element h this, element h q) of
        (Some (Vec v), Some (Quat r)) \<Rightarrow> Some (h[this := Vec (applyQuaternion v r)])
      | _ \<Rightarrow> None)"

text \<open>\<^verbatim>\<open>this.dot(v)\<close>: reads both vectors.\<close>

definition dot_store :: "store \<Rightarrow> nat \<Rightarrow> nat \<Rightarrow> real option" where
  "dot_store h this v =
     (case (element h this, element h v) of
        (Some (Vec a), Some (Vec b)) \<Rightarrow> Some (dot a b)
      | _ \<Rightarrow> None)"

fun forEach_store ::
  "store \<Rightarrow> nat \<Rightarrow> nat list \<Rightarrow> nat \<Rightarrow> real \<times> nat \<Rightarrow> (real \<times> nat) option" where
  "forEach_store h upVector [] index st = Some st"
| "forEach_store h upVector (normal # rest) index (maxAlignment, faceIndex) =
     (case dot_store h upVector normal of
        None \<Rightarrow> None
      | Some alignment \<Rightarrow>
          if alignment > maxAlignment
          then forEach_store h upVector rest (Suc index) (alignment, index)
          else forEach_store h upVector rest (Suc index) (maxAlignment, faceIndex))"

text \<open>
  The arguments are the store, the reference of \<^verbatim>\<open>diceMesh.quaternion\<close> and the
  reference of the array \<^verbatim>\<open>faceNumbers\<close> of the enclosing \<^verbatim>\<open>createDice\<close>; the result
  is the returned value and the store after the call.
\<close>

definition getCurrentValue_store ::
  "store \<Rightarrow> nat \<Rightarrow> nat \<Rightarrow> (nat option \<times> store) option" where
  "getCurrentValue_store h quaternion faceNumbers_ref =
     (let diceRotation = quaternion;
          (upVector, h1) = new h (Vec \<lparr> vx = 0, vy = 1, vz = 0 \<rparr>)
      in case applyQuaternion_store h1 upVector diceRotation of
           None \<Rightarrow> None
         | Some h2 \<Rightarrow>
             (let (normal_refs, h3) = new_all h2 (map Vec normals)
              in case forEach_store h3 upVector normal_refs 0 (- 1, 0) of
                   None \<Rightarrow> None
                 | Some (maxAlignment, faceIndex) \<Rightarrow>
                     (case element h3 faceNumbers_ref of
                        Some (Arr numbers) \<Rightarrow> Some (element numbers faceIndex, h3)
                      | _ \<Rightarrow> None)))"


section \<open>Roll initiation: \<^verbatim>\<open>rollDice\<close> of \<^verbatim>\<open>src/main.js\<close>\<close>

text \<open>
  The physics engine is outside the repository. What the die controller does to its
  rigid body is the list of the engine calls it makes, in order; the flag is the
  \<^verbatim>\<open>wakeUp\<close> argument.
\<close>

datatype bodyCall =
    SetTranslation Vector3 bool
  | SetLinvel Vector3 bool
  | SetAngvel Vector3 bool
  | ApplyImpulse Vector3 bool
  | ApplyTorqueImpulse Vector3 bool

text \<open>The methods \<^verbatim>\<open>reset\<close>, \<^verbatim>\<open>applyImpulse\<close> and \<^verbatim>\<open>applyTorque\<close> of the controller.\<close>

definition reset :: "real \<Rightarrow> real \<Rightarrow> real \<Rightarrow> bodyCall list" where
  "reset x y z =
     [SetTranslation \<lparr> vx = x, vy = y, vz = z \<rparr> True,
      SetLinvel \<lparr> vx = 0, vy = 0, vz = 0 \<rparr> True,
      SetAngvel \<lparr> vx = 0, vy = 0, vz = 0 \<rparr> True]"

definition applyImpulse :: "real \<Rightarrow> real \<Rightarrow> real \<Rightarrow> bodyCall list" where
  "applyImpulse x y z = [ApplyImpulse \<lparr> vx = x, vy = y, vz = z \<rparr> True]"

definition applyTorque :: "real \<Rightarrow> real \<Rightarrow> real \<Rightarrow> bodyCall list" where
  "applyTorque x y z = [ApplyTorqueImpulse \<lparr> vx = x, vy = y, vz = z \<rparr> True]"

text \<open>
  The body of the callback of \<^verbatim>\<open>dice.forEach\<close>. \<^verbatim>\<open>Math.random()\<close> is a sequence
  \<open>random\<close> of numbers and a counter \<open>n\<close> of the draws made so far; the six draws
  are made in the order in which JavaScript evaluates the arguments. The result is the
  calls made on the body of the die and the counter after them.
\<close>

definition rollDie :: "(nat \<Rightarrow> real) \<Rightarrow> nat \<Rightarrow> nat \<Rightarrow> bodyCall list \<times> nat" where
  "rollDie random index n =
     (let offsetX = real index * 0.5;
          offsetZ = real index * 0.3;
          height = 8 + real index * 2;
          calls1 = reset (10 + offsetX) height (10 + offsetZ);
          force = 15 + random n * 3;
          calls2 = applyImpulse
            (- force)
            (5 + random (n + 1) * 2)
            (- force * (0.8 + random (n + 2) * 0.4));
          calls3 = applyTorque
            ((random (n + 3) - 0.5) * 10)
            ((random (n + 4) - 0.5) * 10)
            ((random (n + 5) - 0.5) * 10)
      in (calls1 @ calls2 @ calls3, n + 6))"

fun forEach_dice :: "(nat \<Rightarrow> real) \<Rightarrow> nat \<Rightarrow> nat \<Rightarrow> nat \<Rightarrow> bodyCall list list" where
  "forEach_dice random 0 index n = []"
| "forEach_dice random (Suc remaining) index n =
     (let (calls, n') = rollDie random index n
      in calls # forEach_dice random remaining (Suc index) n')"

text \<open>
  \<^verbatim>\<open>rollDice\<close>: \<open>dice_length\<close> is the length of the array \<^verbatim>\<open>dice\<close>; the result
  lists, for every die, the calls made on its body.
\<close>

definition rollDice :: "(nat \<Rightarrow> real) \<Rightarrow> nat \<Rightarrow> nat \<Rightarrow> bodyCall list list" where
  "rollDice random dice_length n = forEach_dice random dice_length 0 n"

text \<open>
  The floor of \<^verbatim>\<open>setupPhysicsWorld\<close>: a fixed body at height 0 with a box collider of
  half height \<^verbatim>\<open>PHYSICS.floorSize.y = 0.1\<close>. Its upper side is the floor plane.
\<close>

definition floorTop :: real where
  "floorTop = 0 + 0.1"


section \<open>Dice face textures: \<^verbatim>\<open>src/graphics/textures.js\<close>\<close>

text \<open>
  \<^verbatim>\<open>Number.prototype.toString(radix)\<close> on an integer: the digits in the radix, with
  a minus sign for a negative number. The radix is 10 or 16 in every call.
\<close>

definition digitChar :: "nat \<Rightarrow> char" where
  "digitChar d = ''0123456789abcdefghijklmnopqrstuvwxyz'' ! d"

function digits :: "nat \<Rightarrow> nat \<Rightarrow> string" where
  "digits radix n =
     (if radix < 2 \<or> n < radix then [digitChar n]
      else digits radix (n div radix) @ [digitChar (n mod radix)])"
  by pat_completeness auto
termination
  by (relation "measure (\<lambda>(radix, n). n)") auto

declare digits.simps [simp del]

definition toString :: "nat \<Rightarrow> int \<Rightarrow> string" where
  "toString radix i =
     (if i < 0 then ''-'' @ digits radix (nat (- i)) else digits radix (nat i))"

definition padStart :: "nat \<Rightarrow> char \<Rightarrow> string \<Rightarrow> string" where
  "padStart targetLength c s = replicate (targetLength - length s) c @ s"

text \<open>
  A canvas is its size and the list of what was drawn on it. \<open>FillRect\<close> carries the
  fill style and the rectangle; \<open>FillArc\<close> is a filled full circle with the fill
  style, the shadow colour and blur in force, the centre and the radius; \<open>FillText\<close>
  carries the fill style, the font, the text and the position.
\<close>

datatype drawCall =
    FillRect string real real real real
  | FillArc string string real real real real
  | FillText string string string real real

record canvas =
  width :: nat
  height :: nat
  drawn :: "drawCall list"

text \<open>
  A texture object: the number is its identity (the count of the textures created
  before it), so two textures with the same picture are still two objects.
\<close>

datatype texture =
    CanvasTexture nat canvas
  | LoadedTexture nat string

text \<open>
  The state the texture module works on: the module variable \<^verbatim>\<open>debugEnabled\<close> of
  \<^verbatim>\<open>debug.js\<close>, whether the browser hands out a 2D context (\<^verbatim>\<open>getContext('2d')\<close> is
  not \<^verbatim>\<open>null\<close>), the lines written to the console, the number of textures created,
  and the module variable \<^verbatim>\<open>diceFaceCache\<close>.
\<close>

record page =
  debugEnabled :: bool
  context2d :: bool
  console :: "string list"
  textures :: nat
  diceFaceCache :: "string \<rightharpoonup> texture"

text \<open>
  \<^verbatim>\<open>log\<close> of \<^verbatim>\<open>debug.js\<close>: nothing unless debug mode is on. The copy of the message
  into the debug element of the document is not modelled.
\<close>

definition log_msg :: "string \<Rightarrow> page \<Rightarrow> page" where
  "log_msg message st =
     (if \<not> debugEnabled st then st
      else st \<lparr> console := console st @ [''[DEBUG] '' @ message] \<rparr>)"

text \<open>\<^verbatim>\<open>drawPip\<close>: \<^verbatim>\<open>beginPath\<close>, one full \<^verbatim>\<open>arc\<close>, \<^verbatim>\<open>fill\<close>.\<close>

definition drawPip :: "string \<Rightarrow> string \<Rightarrow> real \<Rightarrow> real \<Rightarrow> real \<Rightarrow> real \<Rightarrow> drawCall list" where
  "drawPip fillStyle shadowColor shadowBlur x y radius =
     [FillArc fillStyle shadowColor shadowBlur x y radius]"

definition hexColor :: "int \<Rightarrow> string" where
  "hexColor color = ''#'' @ padStart 6 (CHR ''0'') (toString 16 color)"

definition createFallbackTexture :: "int \<Rightarrow> int \<Rightarrow> page \<Rightarrow> texture \<times> page" where
  "createFallbackTexture value color st =
     (let size = 64 in
      if \<not> context2d st
      then (LoadedTexture (textures st)
              ''data:image/png;base64,iVBORw0KGgoAAAANSUhEUgAAAAEAAAABCAYAAAAfFcSJAAAADUlEQVR42mP8z8BQDwAEhQGAhKmMIQAAAABJRU5ErkJggg=='',
            st \<lparr> textures := Suc (textures st) \<rparr>)
      else (CanvasTexture (textures st)
              \<lparr> width = size, height = size,
                drawn = [FillRect ''#000000'' 0 0 (real size) (real size),
                         FillText (hexColor color) ''bold 32px Arial'' (toString 10 value)
                           (real size / 2) (real size / 2)] \<rparr>,
            st \<lparr> textures := Suc (textures st) \<rparr>))"

text \<open>
  The \<^verbatim>\<open>switch (value)\<close> of \<^verbatim>\<open>generateDiceFaceTexture\<close>, case by case in the order
  of the source; the last branch is \<^verbatim>\<open>default\<close>.
\<close>

definition switch_value ::
  "int \<Rightarrow> string \<Rightarrow> string \<Rightarrow> real \<Rightarrow> real \<Rightarrow> real \<Rightarrow> real \<Rightarrow> page \<Rightarrow> drawCall list \<times> page" where
  "switch_value value fillStyle shadowColor shadowBlur center offset pipRadius st =
     (let pip = drawPip fillStyle shadowColor shadowBlur in
      if value = 1 then
        (pip center center pipRadius, st)
      else if value = 2 then
        (pip (center + offset) (center - offset) pipRadius @
         pip (center - offset) (center + offset) pipRadius, st)
      else if value = 3 then
        (pip (center - offset) (center - offset) pipRadius @
         pip center center pipRadius @
         pip (center + offset) (center + offset) pipRadius, st)
      else if value = 4 then
        (pip (center - offset) (center - offset) pipRadius @
         pip (center + offset) (center - offset) pipRadius @
         pip (center - offset) (center + offset) pipRadius @
         pip (center + offset) (center + offset) pipRadius, st)
      else if value = 5 then
        (pip (center - offset) (center - offset) pipRadius @
         pip (center + offset) (center - offset) pipRadius @
         pip center center pipRadius @
         pip (center - offset) (center + offset) pipRadius @
         pip (center + offset) (center + offset) pipRadius, st)
      else if value = 6 then
        (pip (center - offset) (center - offset) pipRadius @
         pip (center - offset) center pipRadius @
         pip (center - offset) (center + offset) pipRadius @
         pip (center + offset) (center - offset) pipRadius @
         pip (center + offset) center pipRadius @
         pip (center + offset) (center + offset) pipRadius, st)
      else
        (pip center center pipRadius,
         log_msg (''Warning: Invalid dice value '' @ toString 10 value @ '', defaulting to 1'') st))"

text \<open>
  The \<^verbatim>\<open>try\<close> block of \<^verbatim>\<open>generateDiceFaceTexture\<close>: \<open>Inl\<close> is the message of the
  \<^verbatim>\<open>Error\<close> thrown when there is no 2D context.
\<close>

definition generateDiceFaceTexture_try :: "int \<Rightarrow> int \<Rightarrow> page \<Rightarrow> string + texture \<times> page" where
  "generateDiceFaceTexture_try value color st =
     (let size = 256 in
      if \<not> context2d st then Inl ''Could not get 2D context for dice texture''
      else
        (let background = [FillRect ''#000000'' 0 0 (real size) (real size)];
             shadowColor = hexColor color;
             shadowBlur = 20;
             center = real size / 2;
             offset = real size / 4;
             pipRadius = real size / 14;
             (pips, st1) =
               switch_value value ''white'' shadowColor shadowBlur center offset pipRadius st
         in Inr (CanvasTexture (textures st1)
                   \<lparr> width = size, height = size, drawn = background @ pips \<rparr>,
                 st1 \<lparr> textures := Suc (textures st1) \<rparr>)))"

text \<open>The whole function: the \<^verbatim>\<open>catch\<close> block logs and returns the fallback texture.\<close>

definition generateDiceFaceTexture :: "int \<Rightarrow> int \<Rightarrow> page \<Rightarrow> texture \<times> page" where
  "generateDiceFaceTexture value color st =
     (case generateDiceFaceTexture_try value color st of
        Inr result \<Rightarrow> result
      | Inl message \<Rightarrow>
          createFallbackTexture value color
            (log_msg (''Error creating dice face texture: '' @ message) st))"

text \<open>
  \<^verbatim>\<open>createDiceFaceTexture\<close>: the test \<^verbatim>\<open>if (diceFaceCache[cacheKey])\<close> succeeds
  exactly when the key is present, a texture being an object.
\<close>

definition createDiceFaceTexture :: "int \<Rightarrow> int \<Rightarrow> page \<Rightarrow> texture \<times> page" where
  "createDiceFaceTexture value color st =
     (let cacheKey = ''face_'' @ toString 10 value @ ''_'' @ toString 10 color in
      case diceFaceCache st cacheKey of
        Some cached \<Rightarrow> (cached, st)
      | None \<Rightarrow>
          (let (texture, st1) = generateDiceFaceTexture value color st
           in (texture, st1 \<lparr> diceFaceCache := (diceFaceCache st1)(cacheKey \<mapsto> texture) \<rparr>)))"

text \<open>The key \<^verbatim>\<open>cacheKey\<close> of a value and a colour, and the identity of a texture.\<close>

definition diceFaceCacheKey :: "int \<Rightarrow> int \<Rightarrow> string" where
  "diceFaceCacheKey value color = ''face_'' @ toString 10 value @ ''_'' @ toString 10 color"

primrec textureId :: "texture \<Rightarrow> nat" where
  "textureId (CanvasTexture i c) = i"
| "textureId (LoadedTexture i u) = i"

text \<open>A run of further calls, each with its value and colour; only the state is kept.\<close>

fun createDiceFaceTextures :: "(int \<times> int) list \<Rightarrow> page \<Rightarrow> page" where
  "createDiceFaceTextures [] st = st"
| "createDiceFaceTextures ((value, color) # rest) st =
     createDiceFaceTextures rest (snd (createDiceFaceTexture value color st))"

text \<open>The page when the module is loaded, with a 2D context available.\<close>

definition page0 :: page where
  "page0 = \<lparr> debugEnabled = False, context2d = True, console = [], textures = 0,
             diceFaceCache = Map.empty \<rparr>"


section \<open>Face resolution: the selection loop\<close>

lemma forEach_normals_result:
  "forEach_normals u ns k (m0, i0) = (m, i) \<Longrightarrow>
     (m = m0 \<and> i = i0 \<and> (\<forall>j < length ns. dot u (ns ! j) \<le> m0)) \<or>
     (k \<le> i \<and> i < k + length ns \<and> m = dot u (ns ! (i - k)) \<and> m0 < m \<and>
      (\<forall>j < i - k. dot u (ns ! j) < m) \<and> (\<forall>j < length ns. dot u (ns ! j) \<le> m))"
proof (induction ns arbitrary: k m0 i0)
  case Nil
  then show ?case by simp
next
  case (Cons n rest)
  let ?a = "dot u n"
  show ?case
  proof (cases "?a > m0")
    case True
    with Cons.prems have run: "forEach_normals u rest (Suc k) (?a, k) = (m, i)"
      by simp
    from Cons.IH [OF run] show ?thesis
    proof
      assume same: "m = ?a \<and> i = k \<and> (\<forall>j < length rest. dot u (rest ! j) \<le> ?a)"
      have "\<forall>j < length (n # rest). dot u ((n # rest) ! j) \<le> m"
        using same by (auto simp: nth_Cons split: nat.splits)
      with same True show ?thesis by simp
    next
      assume later: "Suc k \<le> i \<and> i < Suc k + length rest \<and> m = dot u (rest ! (i - Suc k)) \<and>
        ?a < m \<and> (\<forall>j < i - Suc k. dot u (rest ! j) < m) \<and>
        (\<forall>j < length rest. dot u (rest ! j) \<le> m)"
      then have ik: "i - k = Suc (i - Suc k)" by arith
      have before: "\<forall>j < i - k. dot u ((n # rest) ! j) < m"
        using later ik by (auto simp: nth_Cons split: nat.splits)
      have all: "\<forall>j < length (n # rest). dot u ((n # rest) ! j) \<le> m"
        using later by (auto simp: nth_Cons split: nat.splits)
      have "m = dot u ((n # rest) ! (i - k))" using later ik by simp
      with later True before all show ?thesis by auto
    qed
  next
    case False
    with Cons.prems have run: "forEach_normals u rest (Suc k) (m0, i0) = (m, i)"
      by simp
    from Cons.IH [OF run] show ?thesis
    proof
      assume same: "m = m0 \<and> i = i0 \<and> (\<forall>j < length rest. dot u (rest ! j) \<le> m0)"
      have "\<forall>j < length (n # rest). dot u ((n # rest) ! j) \<le> m0"
        using same False by (auto simp: nth_Cons split: nat.splits)
      with same show ?thesis by simp
    next
      assume later: "Suc k \<le> i \<and> i < Suc k + length rest \<and> m = dot u (rest ! (i - Suc k)) \<and>
        m0 < m \<and> (\<forall>j < i - Suc k. dot u (rest ! j) < m) \<and>
        (\<forall>j < length rest. dot u (rest ! j) \<le> m)"
      then have ik: "i - k = Suc (i - Suc k)" by arith
      have before: "\<forall>j < i - k. dot u ((n # rest) ! j) < m"
        using later ik False by (auto simp: nth_Cons split: nat.splits)
      have all: "\<forall>j < length (n # rest). dot u ((n # rest) ! j) \<le> m"
        using later False by (auto simp: nth_Cons split: nat.splits)
      have "m = dot u ((n # rest) ! (i - k))" using later ik by simp
      with later before all show ?thesis by auto
    qed
  qed
qed

lemma length_normals: "length normals = 6"
  by (simp add: normals_def)

lemma length_faceNumbers: "length faceNumbers = 6"
  by (simp add: faceNumbers_def)

text \<open>
  The two alignments of the faces +X and -X are opposite numbers, so one of them is
  not below 0: the start value -1 of \<^verbatim>\<open>maxAlignment\<close> is always beaten.
\<close>

lemma opposite_alignments: "dot u (normals ! 0) = - dot u (normals ! 1)"
  by (simp add: normals_def dot_def)

lemma getCurrentValue_selects:
  "\<exists>i < 6. getCurrentValue q = Some (faceNumbers ! i) \<and>
     (\<forall>j < 6. faceAlignment q j \<le> faceAlignment q i) \<and>
     (\<forall>j < i. faceAlignment q j < faceAlignment q i)"
proof -
  define u where "u = applyQuaternion \<lparr> vx = 0, vy = 1, vz = 0 \<rparr> q"
  obtain m i where run: "forEach_normals u normals 0 (- 1, 0) = (m, i)"
    by (cases "forEach_normals u normals 0 (- 1, 0)") auto
  have val: "getCurrentValue q = element faceNumbers i"
    using run by (simp add: getCurrentValue_def u_def)
  from forEach_normals_result [OF run] show ?thesis
  proof
    assume "m = - 1 \<and> i = 0 \<and> (\<forall>j < length normals. dot u (normals ! j) \<le> - 1)"
    then have "dot u (normals ! 0) \<le> - 1" and "dot u (normals ! 1) \<le> - 1"
      by (simp_all add: length_normals)
    with opposite_alignments [of u] show ?thesis by simp
  next
    assume sel: "0 \<le> i \<and> i < 0 + length normals \<and> m = dot u (normals ! (i - 0)) \<and> - 1 < m \<and>
      (\<forall>j < i - 0. dot u (normals ! j) < m) \<and> (\<forall>j < length normals. dot u (normals ! j) \<le> m)"
    then have i6: "i < 6" by (simp add: length_normals)
    have "getCurrentValue q = Some (faceNumbers ! i)"
      using val i6 by (simp add: element_def length_faceNumbers)
    moreover have al: "faceAlignment q j = dot u (normals ! j)" for j
      by (simp add: faceAlignment_def u_def)
    have "\<forall>j < 6. faceAlignment q j \<le> faceAlignment q i"
      unfolding al using sel by (auto simp: length_normals)
    moreover have "\<forall>j < i. faceAlignment q j < faceAlignment q i"
      unfolding al using sel by auto
    ultimately show ?thesis using i6 by blast
  qed
qed

text \<open>\<^verbatim>\<open>getCurrentValue\<close> is the selection applied to the rotated up vector.\<close>

lemma getCurrentValue_selectFace:
  "getCurrentValue q = selectFace (applyQuaternion \<lparr> vx = 0, vy = 1, vz = 0 \<rparr> q)"
  by (simp add: getCurrentValue_def selectFace_def)

lemma all_less_6: "(\<forall>i < (6::nat). P i) \<longleftrightarrow> P 0 \<and> P 1 \<and> P 2 \<and> P 3 \<and> P 4 \<and> P 5"
proof
  assume "\<forall>i < (6::nat). P i"
  then show "P 0 \<and> P 1 \<and> P 2 \<and> P 3 \<and> P 4 \<and> P 5" by simp
next
  assume each: "P 0 \<and> P 1 \<and> P 2 \<and> P 3 \<and> P 4 \<and> P 5"
  show "\<forall>i < (6::nat). P i"
  proof (intro allI impI)
    fix i :: nat
    assume "i < 6"
    then have "i = 0 \<or> i = 1 \<or> i = 2 \<or> i = 3 \<or> i = 4 \<or> i = 5" by arith
    with each show "P i" by auto
  qed
qed

lemma set_faceNumbers: "set faceNumbers = {1, 2, 3, 4, 5, 6}"
  by (auto simp: faceNumbers_def)

section \<open>The store: helper lemmas\<close>

lemma new_all_eq: "new_all h obs = ([length h ..< length h + length obs], h @ obs)"
proof (induction obs arbitrary: h)
  case Nil
  then show ?case by simp
next
  case (Cons ob obs)
  have "length h < length h + length (ob # obs)" by simp
  then have "[length h ..< length h + length (ob # obs)] =
      length h # [Suc (length h) ..< length h + length (ob # obs)]"
    by (rule upt_conv_Cons)
  then show ?case by (simp add: new_def Cons.IH)
qed

lemma element_append: "a < length h \<Longrightarrow> element (h @ xs) a = element h a"
  by (simp add: element_def nth_append)

lemma element_Some_less: "element h a = Some x \<Longrightarrow> a < length h"
  by (simp add: element_def split: if_splits)

lemma element_fresh: "element (h @ xs) (length h + j) = element xs j"
  by (simp add: element_def nth_append)

lemma forEach_store_eq:
  "element h ua = Some (Vec u) \<Longrightarrow> length as = length ns \<Longrightarrow>
   (\<forall>j < length ns. element h (as ! j) = Some (Vec (ns ! j))) \<Longrightarrow>
   forEach_store h ua as k st = Some (forEach_normals u ns k st)"
proof (induction as arbitrary: ns k st)
  case Nil
  then show ?case by simp
next
  case (Cons a as)
  then obtain n rest where ns: "ns = n # rest" by (cases ns) auto
  obtain m i where st: "st = (m, i)" by (cases st)
  have a: "element h a = Some (Vec n)" using Cons.prems(3) ns by auto
  have rest: "\<forall>j < length rest. element h (as ! j) = Some (Vec (rest ! j))"
    using Cons.prems(3) ns by auto
  have len: "length as = length rest" using Cons.prems(2) ns by simp
  have d: "dot_store h ua a = Some (dot u n)"
    using Cons.prems(1) a by (simp add: dot_store_def)
  show ?case
    using Cons.IH [OF Cons.prems(1) len rest] d by (simp add: ns st)
qed

lemma getCurrentValue_store_eq:
  assumes q: "element h qa = Some (Quat q)"
    and f: "element h fa = Some (Arr faceNumbers)"
  shows "getCurrentValue_store h qa fa =
     Some (getCurrentValue q,
       h @ Vec (applyQuaternion \<lparr> vx = 0, vy = 1, vz = 0 \<rparr> q) # map Vec normals)"
proof -
  define u where "u = applyQuaternion \<lparr> vx = 0, vy = 1, vz = 0 \<rparr> q"
  define h1 where "h1 = h @ [Vec \<lparr> vx = 0, vy = 1, vz = 0 \<rparr>]"
  define h3 where "h3 = h @ Vec u # map Vec normals"
  have qa: "qa < length h" and fa: "fa < length h"
    using q f by (auto dest: element_Some_less)
  have "element h1 (length h) = Some (Vec \<lparr> vx = 0, vy = 1, vz = 0 \<rparr>)"
    by (simp add: h1_def element_def)
  moreover have "element h1 qa = Some (Quat q)"
    using q qa by (simp add: h1_def element_append)
  ultimately have step2: "applyQuaternion_store h1 (length h) qa = Some (h @ [Vec u])"
    by (simp add: applyQuaternion_store_def h1_def u_def)
  define refs where "refs = [Suc (length h) ..< Suc (length h) + length normals]"
  have step3: "new_all (h @ [Vec u]) (map Vec normals) = (refs, h3)"
    unfolding refs_def h3_def new_all_eq by simp
  have up: "element h3 (length h) = Some (Vec u)"
    by (simp add: h3_def element_def)
  have ns: "\<forall>j < length normals. element h3 (refs ! j) = Some (Vec (normals ! j))"
  proof (intro allI impI)
    fix j
    assume j: "j < length normals"
    then have "Suc (length h) + j < Suc (length h) + length normals" by simp
    then have "refs ! j = Suc (length h) + j"
      unfolding refs_def by (rule nth_upt)
    then have "refs ! j = length h + Suc j" by simp
    moreover have "element h3 (length h + Suc j) = element (Vec u # map Vec normals) (Suc j)"
      unfolding h3_def by (rule element_fresh)
    moreover have "element (Vec u # map Vec normals) (Suc j) = Some (Vec (normals ! j))"
      using j by (simp add: element_def)
    ultimately show "element h3 (refs ! j) = Some (Vec (normals ! j))"
      by simp
  qed
  have "length refs = length normals"
    unfolding refs_def length_upt by (rule add_diff_cancel_left')
  then have step4: "forEach_store h3 (length h) refs 0 (- 1, 0)
      = Some (forEach_normals u normals 0 (- 1, 0))"
    using ns by (intro forEach_store_eq [OF up])
  have step5: "element h3 fa = Some (Arr faceNumbers)"
    using f fa by (simp add: h3_def element_append)
  obtain m i where run: "forEach_normals u normals 0 (- 1, 0) = (m, i)"
    by (cases "forEach_normals u normals 0 (- 1, 0)") auto
  have "getCurrentValue q = element faceNumbers i"
    using run by (simp add: getCurrentValue_def u_def)
  moreover have "getCurrentValue_store h qa fa = Some (element faceNumbers i, h3)"
    using step2 step3 step4 step5 run
    by (simp add: getCurrentValue_store_def new_def h1_def [symmetric])
  ultimately show ?thesis by (simp add: h3_def u_def)
qed

section \<open>Roll initiation: helper lemmas\<close>

lemma forEach_dice_length: "length (forEach_dice random k index n) = k"
  by (induction k arbitrary: index n) (auto simp: rollDie_def Let_def)

lemma forEach_dice_nth:
  "i < k \<Longrightarrow> forEach_dice random k index n ! i = fst (rollDie random (index + i) (n + 6 * i))"
proof (induction k arbitrary: index n i)
  case 0
  then show ?case by simp
next
  case (Suc k)
  have snd6: "snd (rollDie random index n) = n + 6" by (simp add: rollDie_def Let_def)
  show ?case
  proof (cases i)
    case 0
    then show ?thesis by (simp add: case_prod_unfold Let_def)
  next
    case (Suc j)
    with Suc.prems have "j < k" by simp
    from Suc.IH [OF this, of "Suc index" "n + 6"]
    have "forEach_dice random k (Suc index) (n + 6) ! j =
        fst (rollDie random (Suc index + j) (n + 6 + 6 * j))" .
    moreover have "Suc index + j = index + i" and "n + 6 + 6 * j = n + 6 * i"
      using Suc by simp_all
    ultimately show ?thesis
      using Suc by (simp add: case_prod_unfold Let_def snd6)
  qed
qed

section \<open>Textures: helper lemmas\<close>

lemma log_msg_fields [simp]:
  "context2d (log_msg m st) = context2d st"
  "textures (log_msg m st) = textures st"
  "diceFaceCache (log_msg m st) = diceFaceCache st"
  "debugEnabled (log_msg m st) = debugEnabled st"
  by (simp_all add: log_msg_def)

lemma switch_value_cache:
  "diceFaceCache (snd (switch_value v f sc sb c off r st)) = diceFaceCache st"
  by (simp add: switch_value_def Let_def)

lemma generateDiceFaceTexture_cache:
  "diceFaceCache (snd (generateDiceFaceTexture v c st)) = diceFaceCache st"
proof (cases "context2d st")
  case True
  obtain pips st1 where sw: "switch_value v ''white'' (hexColor c) 20 (256 / 2) (256 / 4) (256 / 14) st = (pips, st1)"
    by (cases "switch_value v ''white'' (hexColor c) 20 (256 / 2) (256 / 4) (256 / 14) st") auto
  have "diceFaceCache st1 = diceFaceCache st"
    using switch_value_cache [of v "''white''" "hexColor c" 20 "256 / 2" "256 / 4" "256 / 14" st] sw
    by simp
  then show ?thesis
    using True sw by (simp add: generateDiceFaceTexture_def generateDiceFaceTexture_try_def Let_def)
next
  case False
  then show ?thesis
    by (simp add: generateDiceFaceTexture_def generateDiceFaceTexture_try_def
        createFallbackTexture_def Let_def)
qed

lemma createDiceFaceTexture_hit:
  "diceFaceCache st (''face_'' @ toString 10 v @ ''_'' @ toString 10 c) = Some t \<Longrightarrow>
   createDiceFaceTexture v c st = (t, st)"
  by (simp add: createDiceFaceTexture_def Let_def)

lemma createDiceFaceTexture_stores:
  "diceFaceCache (snd (createDiceFaceTexture v c st))
     (''face_'' @ toString 10 v @ ''_'' @ toString 10 c) = Some (fst (createDiceFaceTexture v c st))"
  by (simp add: createDiceFaceTexture_def Let_def case_prod_unfold split: option.splits)

lemma createDiceFaceTexture_keeps:
  assumes "diceFaceCache st k = Some t"
  shows "diceFaceCache (snd (createDiceFaceTexture v c st)) k = Some t"
proof (cases "diceFaceCache st (''face_'' @ toString 10 v @ ''_'' @ toString 10 c)")
  case None
  with assms have "k \<noteq> ''face_'' @ toString 10 v @ ''_'' @ toString 10 c" by auto
  with None assms show ?thesis
    by (simp add: createDiceFaceTexture_def Let_def case_prod_unfold generateDiceFaceTexture_cache)
next
  case (Some cached)
  with assms show ?thesis by (simp add: createDiceFaceTexture_def Let_def)
qed

lemma createDiceFaceTextures_keeps:
  "diceFaceCache st k = Some t \<Longrightarrow> diceFaceCache (createDiceFaceTextures others st) k = Some t"
proof (induction others arbitrary: st)
  case Nil
  then show ?case by simp
next
  case (Cons request others)
  obtain v c where "request = (v, c)" by (cases request)
  with Cons show ?case by (simp add: createDiceFaceTexture_keeps)
qed

subsection \<open>The cache key determines the value and the colour\<close>

lemma less_10_cases:
  "(d::nat) < 10 \<Longrightarrow> d = 0 \<or> d = 1 \<or> d = 2 \<or> d = 3 \<or> d = 4 \<or> d = 5 \<or> d = 6 \<or> d = 7 \<or> d = 8 \<or> d = 9"
  by arith

lemma digitChar_decimal:
  assumes "d < 10"
  shows "digitChar d \<noteq> CHR ''_''" and "digitChar d \<noteq> CHR ''-''"
  using less_10_cases [OF assms] by (auto simp: digitChar_def)

lemma digitChar_inj:
  assumes "d < 10" and "e < 10" and "digitChar d = digitChar e"
  shows "d = e"
  using less_10_cases [OF assms(1)] less_10_cases [OF assms(2)] assms(3)
  by (auto simp: digitChar_def)

lemma digits_small: "n < 10 \<Longrightarrow> digits 10 n = [digitChar n]"
  by (subst digits.simps) simp

lemma digits_large: "\<not> n < 10 \<Longrightarrow> digits 10 n = digits 10 (n div 10) @ [digitChar (n mod 10)]"
  by (subst digits.simps) (simp)

lemma digits_nonempty: "digits 10 n \<noteq> []"
proof (cases "n < 10")
  case True
  then show ?thesis by (simp only: digits_small [OF True]) simp
next
  case False
  show ?thesis by (simp only: digits_large [OF False]) simp
qed

lemma digits_chars: "c \<in> set (digits 10 n) \<Longrightarrow> c \<noteq> CHR ''_'' \<and> c \<noteq> CHR ''-''"
proof (induction n rule: less_induct)
  case (less n)
  show ?case
  proof (cases "n < 10")
    case True
    from less.prems have "c = digitChar n"
      unfolding digits_small [OF True] by simp
    with digitChar_decimal [OF True] show ?thesis by simp
  next
    case False
    then have smaller: "n div 10 < n" by simp
    have "n mod 10 < 10" by simp
    note last = digitChar_decimal [OF this]
    from less.prems have "c \<in> set (digits 10 (n div 10)) \<or> c = digitChar (n mod 10)"
      unfolding digits_large [OF False] by auto
    with less.IH [OF smaller] last show ?thesis by auto
  qed
qed

lemma digits_length_large: "\<not> n < 10 \<Longrightarrow> 2 \<le> length (digits 10 n)"
proof -
  assume large: "\<not> n < 10"
  obtain d ds where "digits 10 (n div 10) = d # ds"
    using digits_nonempty [of "n div 10"] by (cases "digits 10 (n div 10)") auto
  then show ?thesis unfolding digits_large [OF large] by simp
qed

lemma digits_inj: "digits 10 n = digits 10 m \<Longrightarrow> n = m"
proof (induction n arbitrary: m rule: less_induct)
  case (less n)
  show ?case
  proof (cases "n < 10")
    case n: True
    show ?thesis
    proof (cases "m < 10")
      case True
      from less.prems have "digitChar n = digitChar m"
        unfolding digits_small [OF n] digits_small [OF True] by simp
      with n True show ?thesis by (rule digitChar_inj)
    next
      case False
      from less.prems have "length (digits 10 m) = 1"
        unfolding digits_small [OF n] by (metis length_Cons list.size(3) One_nat_def)
      with digits_length_large [OF False] show ?thesis by simp
    qed
  next
    case n: False
    show ?thesis
    proof (cases "m < 10")
      case True
      from less.prems have "length (digits 10 n) = 1"
        unfolding digits_small [OF True] by simp
      with digits_length_large [OF n] show ?thesis by simp
    next
      case False
      from less.prems
      have eq: "digits 10 (n div 10) = digits 10 (m div 10)"
        and last: "digitChar (n mod 10) = digitChar (m mod 10)"
        unfolding digits_large [OF n] digits_large [OF False] by simp_all
      from n have "n div 10 < n" by simp
      from less.IH [OF this eq] have "n div 10 = m div 10" .
      moreover have "n mod 10 = m mod 10"
        by (rule digitChar_inj [OF _ _ last]) simp_all
      ultimately show ?thesis by (metis div_mult_mod_eq)
    qed
  qed
qed

lemma toString_chars: "CHR ''_'' \<notin> set (toString 10 i)"
  using digits_chars by (auto simp: toString_def)

lemma hd_digits: "hd (digits 10 n) \<noteq> CHR ''-''"
  using digits_chars [of "hd (digits 10 n)" n] digits_nonempty [of n]
  by (simp)

lemma toString_inj: "toString 10 i = toString 10 j \<Longrightarrow> i = j"
proof -
  assume eq: "toString 10 i = toString 10 j"
  have neg: "a < 0 \<Longrightarrow> hd (toString 10 a) = CHR ''-''" for a
    by (simp add: toString_def)
  have pos: "\<not> a < 0 \<Longrightarrow> hd (toString 10 a) \<noteq> CHR ''-''" for a
    by (simp add: toString_def hd_digits)
  have same: "i < 0 \<longleftrightarrow> j < 0" using neg [of i] neg [of j] pos [of i] pos [of j] eq by metis
  show "i = j"
  proof (cases "i < 0")
    case True
    with same eq have "digits 10 (nat (- i)) = digits 10 (nat (- j))"
      by (simp add: toString_def)
    then have "nat (- i) = nat (- j)" by (rule digits_inj)
    with True same show ?thesis by simp
  next
    case False
    with same eq have "digits 10 (nat i) = digits 10 (nat j)"
      by (simp add: toString_def)
    then have "nat i = nat j" by (rule digits_inj)
    with False same show ?thesis by simp
  qed
qed

lemma split_at_underscore:
  assumes "CHR ''_'' \<notin> set a" and "CHR ''_'' \<notin> set b"
    and "a @ CHR ''_'' # x = b @ CHR ''_'' # y"
  shows "a = b \<and> x = y"
  using assms
proof (induction a arbitrary: b)
  case Nil
  then show ?case by (cases b) auto
next
  case (Cons h a)
  then show ?case by (cases b) auto
qed

lemma diceFaceCacheKey_inj:
  "diceFaceCacheKey v c = diceFaceCacheKey v' c' \<longleftrightarrow> v = v' \<and> c = c'"
proof
  assume "diceFaceCacheKey v c = diceFaceCacheKey v' c'"
  then have "toString 10 v @ CHR ''_'' # toString 10 c = toString 10 v' @ CHR ''_'' # toString 10 c'"
    by (simp add: diceFaceCacheKey_def)
  from split_at_underscore [OF toString_chars toString_chars this]
  show "v = v' \<and> c = c'" by (auto dest: toString_inj)
next
  assume "v = v' \<and> c = c'"
  then show "diceFaceCacheKey v c = diceFaceCacheKey v' c'" by simp
qed

lemma generateDiceFaceTexture_fresh:
  "textureId (fst (generateDiceFaceTexture v c st)) = textures st \<and>
   textures (snd (generateDiceFaceTexture v c st)) = Suc (textures st)"
proof (cases "context2d st")
  case True
  obtain pips st1 where sw: "switch_value v ''white'' (hexColor c) 20 (256 / 2) (256 / 4) (256 / 14) st = (pips, st1)"
    by (cases "switch_value v ''white'' (hexColor c) 20 (256 / 2) (256 / 4) (256 / 14) st") auto
  have "textures st1 = textures st"
    using sw by (auto simp: switch_value_def Let_def split: if_splits)
  then show ?thesis
    using True sw by (simp add: generateDiceFaceTexture_def generateDiceFaceTexture_try_def Let_def)
next
  case False
  then show ?thesis
    by (simp add: generateDiceFaceTexture_def generateDiceFaceTexture_try_def
        createFallbackTexture_def Let_def)
qed

lemma createDiceFaceTexture_miss:
  "diceFaceCache st (diceFaceCacheKey v c) = None \<Longrightarrow>
   createDiceFaceTexture v c st =
     (fst (generateDiceFaceTexture v c st),
      (snd (generateDiceFaceTexture v c st))
        \<lparr> diceFaceCache := (diceFaceCache (snd (generateDiceFaceTexture v c st)))
             (diceFaceCacheKey v c \<mapsto> fst (generateDiceFaceTexture v c st)) \<rparr>)"
  by (simp add: createDiceFaceTexture_def diceFaceCacheKey_def Let_def case_prod_unfold)

section \<open>The claims\<close>

subsection \<open>Face resolution\<close>

text \<open>
  Claim C1 says that for each of the six axis-aligned orientations that put one face
  exactly up, \<^verbatim>\<open>getCurrentValue\<close> returns the label of that face. The code is
  evaluated here at the quarter turn about the Z axis. It rotates the local normal +X
  of the face labelled 1 onto world-up, so the alignment of the spec is 1 for that
  face and the face labelled 1 is up; \<^verbatim>\<open>getCurrentValue\<close> returns 6, the label of the
  opposite face: it rotates the up vector by the orientation, where the inverse
  rotation is needed.
\<close>

theorem getCurrentValue_quarter_turn_z:
  "applyQuaternion \<lparr> vx = 1, vy = 0, vz = 0 \<rparr>
     (setFromAxisAngle \<lparr> vx = 0, vy = 0, vz = 1 \<rparr> (pi / 2)) = \<lparr> vx = 0, vy = 1, vz = 0 \<rparr> \<and>
   isUnit (setFromAxisAngle \<lparr> vx = 0, vy = 0, vz = 1 \<rparr> (pi / 2)) \<and>
   worldAlignment_spec (setFromAxisAngle \<lparr> vx = 0, vy = 0, vz = 1 \<rparr> (pi / 2)) 0 = 1 \<and>
   element normals 0 = Some \<lparr> vx = 1, vy = 0, vz = 0 \<rparr> \<and>
   element faceNumbers 0 = Some 1 \<and>
   getCurrentValue (setFromAxisAngle \<lparr> vx = 0, vy = 0, vz = 1 \<rparr> (pi / 2)) = Some 6"
  by (simp add: getCurrentValue_def setFromAxisAngle_def applyQuaternion_def normals_def dot_def
      element_def faceNumbers_def isUnit_def worldAlignment_spec_def sin_45 cos_45)

text \<open>
  Claim C2 says that \<^verbatim>\<open>isAtRest\<close> is true exactly when the linear and the angular
  speed are both strictly below 0.1. The code is evaluated here on a body that does
  not move at all: both speeds are 0 and the predicate of the spec is true, but
  \<^verbatim>\<open>isAtRest\<close> is false. The vectors of the engine have no property \<^verbatim>\<open>length\<close>,
  both reads give \<^verbatim>\<open>undefined\<close>, and the comparisons are false: the method is false
  for all velocities.
\<close>

theorem isAtRest_never:
  "isAtRest linvel angvel = False \<and>
   isSettled_spec (magnitude \<lparr> vx = 0, vy = 0, vz = 0 \<rparr>) (magnitude \<lparr> vx = 0, vy = 0, vz = 0 \<rparr>)
     0.1 0.1 = True \<and>
   isAtRest \<lparr> vx = 0, vy = 0, vz = 0 \<rparr> \<lparr> vx = 0, vy = 0, vz = 0 \<rparr> = False"
  by (simp add: isAtRest_def rapierVector_def getProperty_def less_number_def
      isSettled_spec_def magnitude_def dot_def)

text \<open>
  Claim C3 says that a tie for the maximal alignment is resolved by the lowest label.
  It fails at the half turn about the axis (-6, 7, 6)/11: the faces -X (label 6) and +Z
  (label 3) tie at 84/121, the other four faces are below, in the alignment the loop
  computes as well as in the alignment of the spec, and the result is 6, not 3.
\<close>

theorem getCurrentValue_tie_counterexample:
  "isUnit \<lparr> qx = - 6 / 11, qy = 7 / 11, qz = 6 / 11, qw = 0 \<rparr> \<and>
   map (faceAlignment \<lparr> qx = - 6 / 11, qy = 7 / 11, qz = 6 / 11, qw = 0 \<rparr>) [0, 1, 2, 3, 4, 5]
     = [- 84 / 121, 84 / 121, - 23 / 121, 23 / 121, 84 / 121, - 84 / 121] \<and>
   map (worldAlignment_spec \<lparr> qx = - 6 / 11, qy = 7 / 11, qz = 6 / 11, qw = 0 \<rparr>) [0, 1, 2, 3, 4, 5]
     = [- 84 / 121, 84 / 121, - 23 / 121, 23 / 121, 84 / 121, - 84 / 121] \<and>
   faceNumbers ! 1 = 6 \<and> faceNumbers ! 4 = 3 \<and>
   getCurrentValue \<lparr> qx = - 6 / 11, qy = 7 / 11, qz = 6 / 11, qw = 0 \<rparr> = Some 6 \<and>
   getCurrentValue \<lparr> qx = - 6 / 11, qy = 7 / 11, qz = 6 / 11, qw = 0 \<rparr> \<noteq> Some 3"
  by (simp add: getCurrentValue_def applyQuaternion_def normals_def dot_def
      element_def faceNumbers_def isUnit_def worldAlignment_spec_def faceAlignment_def)

text \<open>
  Claim C3 as amended: whatever vector the selection loop compares the normals of the
  faces with, the result is the label of a face whose alignment with that vector is
  maximal, and every face before it in the order of the table (+X, -X, +Y, -Y, +Z, -Z,
  with the labels 1, 6, 2, 5, 3, 4) has a strictly smaller alignment. A tie for the
  maximum is resolved by the order of the table, not by the lowest label.
\<close>

theorem selectFace_first_maximal:
  "\<exists>i < 6. selectFace u = Some (faceNumbers ! i) \<and>
     (\<forall>j < 6. dot u (normals ! j) \<le> dot u (normals ! i)) \<and>
     (\<forall>j < i. dot u (normals ! j) < dot u (normals ! i))"
proof -
  obtain m i where run: "forEach_normals u normals 0 (- 1, 0) = (m, i)"
    by (cases "forEach_normals u normals 0 (- 1, 0)") auto
  have val: "selectFace u = element faceNumbers i"
    using run by (simp add: selectFace_def)
  from forEach_normals_result [OF run] show ?thesis
  proof
    assume "m = - 1 \<and> i = 0 \<and> (\<forall>j < length normals. dot u (normals ! j) \<le> - 1)"
    then have "dot u (normals ! 0) \<le> - 1" and "dot u (normals ! 1) \<le> - 1"
      by (simp_all add: length_normals)
    with opposite_alignments [of u] show ?thesis by simp
  next
    assume sel: "0 \<le> i \<and> i < 0 + length normals \<and> m = dot u (normals ! (i - 0)) \<and> - 1 < m \<and>
      (\<forall>j < i - 0. dot u (normals ! j) < m) \<and> (\<forall>j < length normals. dot u (normals ! j) \<le> m)"
    then have i6: "i < 6" by (simp add: length_normals)
    have "selectFace u = Some (faceNumbers ! i)"
      using val i6 by (simp add: element_def length_faceNumbers)
    moreover have "\<forall>j < 6. dot u (normals ! j) \<le> dot u (normals ! i)"
      using sel by (auto simp: length_normals)
    moreover have "\<forall>j < i. dot u (normals ! j) < dot u (normals ! i)"
      using sel by auto
    ultimately show ?thesis using i6 by blast
  qed
qed

text \<open>
  The vector (-84, -23, 84)/121: the faces -X and +Z tie for the maximum, and the
  result is the label of -X, the earlier of the two in the table.
\<close>

theorem selectFace_first_maximal_witness:
  "dot \<lparr> vx = - 84 / 121, vy = - 23 / 121, vz = 84 / 121 \<rparr> (normals ! 1) =
     dot \<lparr> vx = - 84 / 121, vy = - 23 / 121, vz = 84 / 121 \<rparr> (normals ! 4) \<and>
   selectFace \<lparr> vx = - 84 / 121, vy = - 23 / 121, vz = 84 / 121 \<rparr> = Some (faceNumbers ! 1)"
proof -
  let ?u = "\<lparr> vx = - 84 / 121, vy = - 23 / 121, vz = 84 / 121 \<rparr>"
  have al: "dot ?u (normals ! 0) = - 84 / 121" "dot ?u (normals ! 1) = 84 / 121"
    "dot ?u (normals ! 2) = - 23 / 121" "dot ?u (normals ! 3) = 23 / 121"
    "dot ?u (normals ! 4) = 84 / 121" "dot ?u (normals ! 5) = - 84 / 121"
    by (simp_all add: normals_def dot_def)
  obtain i where i: "i < 6" and val: "selectFace ?u = Some (faceNumbers ! i)"
    and top: "\<forall>j < 6. dot ?u (normals ! j) \<le> dot ?u (normals ! i)"
    and first: "\<forall>j < i. dot ?u (normals ! j) < dot ?u (normals ! i)"
    using selectFace_first_maximal [of ?u] by blast
  from i have "i = 0 \<or> i = 1 \<or> i = 2 \<or> i = 3 \<or> i = 4 \<or> i = 5" by arith
  moreover from top have "dot ?u (normals ! 1) \<le> dot ?u (normals ! i)" by simp
  moreover have "i = 4 \<Longrightarrow> dot ?u (normals ! 1) < dot ?u (normals ! i)" using first by simp
  ultimately have "i = 1" using al by auto
  with val al show ?thesis by simp
qed

text \<open>
  Claim C4: \<^verbatim>\<open>getCurrentValue\<close> is total. For every orientation, unit or not, the loop
  ends on an index of the table of six face numbers and the result is one label among
  1, 2, 3, 4, 5, 6.
\<close>

theorem getCurrentValue_total:
  "\<exists>label. getCurrentValue q = Some label \<and> label \<in> {1, 2, 3, 4, 5, 6}"
proof -
  obtain i where "i < 6" and "getCurrentValue q = Some (faceNumbers ! i)"
    using getCurrentValue_selects [of q] by blast
  moreover have "\<forall>i < 6. faceNumbers ! i \<in> {1, 2, 3, 4, 5, 6}"
    by (simp add: all_less_6) (simp add: faceNumbers_def)
  ultimately show ?thesis by blast
qed

text \<open>
  Claim C5: the face assignment gives one label to each of the six axis-aligned
  directions +X, -X, +Y, -Y, +Z, -Z: the table of normals lists exactly these six, each
  once, the table of labels lists 1 to 6, each once, and whenever two entries of the
  table of normals are opposite, their two labels add up to 7.
\<close>

theorem faceNumbers_opposite_sum:
  "length normals = 6 \<and> length faceNumbers = 6 \<and>
   distinct normals \<and> distinct faceNumbers \<and>
   set faceNumbers = {1, 2, 3, 4, 5, 6} \<and>
   normals = [\<lparr> vx = 1, vy = 0, vz = 0 \<rparr>, \<lparr> vx = - 1, vy = 0, vz = 0 \<rparr>,
              \<lparr> vx = 0, vy = 1, vz = 0 \<rparr>, \<lparr> vx = 0, vy = - 1, vz = 0 \<rparr>,
              \<lparr> vx = 0, vy = 0, vz = 1 \<rparr>, \<lparr> vx = 0, vy = 0, vz = - 1 \<rparr>] \<and>
   (\<forall>i < 6. \<forall>j < 6. opposite (normals ! i) (normals ! j) \<longrightarrow>
      faceNumbers ! i + faceNumbers ! j = 7)"
  by (simp add: all_less_6 set_faceNumbers) (simp add: normals_def faceNumbers_def opposite_def)

theorem faceNumbers_opposite_sum_witness:
  "opposite (normals ! 2) (normals ! 3) \<and> faceNumbers ! 2 + faceNumbers ! 3 = 7"
proof -
  have opp: "opposite (normals ! 2) (normals ! 3)"
    by (simp add: normals_def opposite_def)
  moreover have "(2::nat) < 6" and "(3::nat) < 6" by simp_all
  ultimately have "faceNumbers ! 2 + faceNumbers ! 3 = 7"
    using faceNumbers_opposite_sum by blast
  with opp show ?thesis by simp
qed

text \<open>
  Claim C7: at the half turn about the X axis, which turns the top face down,
  \<^verbatim>\<open>getCurrentValue\<close> returns 5, the label of the bottom face.
\<close>

theorem getCurrentValue_half_turn_x:
  "getCurrentValue (setFromAxisAngle \<lparr> vx = 1, vy = 0, vz = 0 \<rparr> pi) = Some 5"
  by (simp add: getCurrentValue_def setFromAxisAngle_def applyQuaternion_def normals_def
      dot_def element_def faceNumbers_def)

text \<open>
  Claim C8: \<^verbatim>\<open>getCurrentValue\<close> is deterministic and changes nothing it reads. On a
  store that holds the quaternion of the mesh and the array of face numbers, the call
  returns the value the pure function gives for that quaternion, every object that
  was in the store before the call is unchanged after it (the call only adds its own
  fresh vectors), and a second call returns the same value.
\<close>

theorem getCurrentValue_store_pure:
  assumes q: "element h qa = Some (Quat q)"
    and f: "element h fa = Some (Arr faceNumbers)"
  shows "\<exists>h1 h2. getCurrentValue_store h qa fa = Some (getCurrentValue q, h1) \<and>
           take (length h) h1 = h \<and>
           getCurrentValue_store h1 qa fa = Some (getCurrentValue q, h2) \<and>
           take (length h1) h2 = h1"
proof -
  define h1 where "h1 = h @ Vec (applyQuaternion \<lparr> vx = 0, vy = 1, vz = 0 \<rparr> q) # map Vec normals"
  have qa: "qa < length h" and fa: "fa < length h"
    using q f by (auto dest: element_Some_less)
  have first: "getCurrentValue_store h qa fa = Some (getCurrentValue q, h1)"
    unfolding h1_def by (rule getCurrentValue_store_eq [OF q f])
  have q1: "element h1 qa = Some (Quat q)" and f1: "element h1 fa = Some (Arr faceNumbers)"
    using q f qa fa by (simp_all add: h1_def element_append)
  from getCurrentValue_store_eq [OF q1 f1] first show ?thesis
    by (auto simp: h1_def)
qed

theorem getCurrentValue_store_pure_witness:
  "element [Quat \<lparr> qx = 1, qy = 0, qz = 0, qw = 0 \<rparr>, Arr faceNumbers] 0
     = Some (Quat \<lparr> qx = 1, qy = 0, qz = 0, qw = 0 \<rparr>) \<and>
   element [Quat \<lparr> qx = 1, qy = 0, qz = 0, qw = 0 \<rparr>, Arr faceNumbers] 1
     = Some (Arr faceNumbers) \<and>
   (\<exists>h1. getCurrentValue_store [Quat \<lparr> qx = 1, qy = 0, qz = 0, qw = 0 \<rparr>, Arr faceNumbers] 0 1
     = Some (getCurrentValue \<lparr> qx = 1, qy = 0, qz = 0, qw = 0 \<rparr>, h1))"
proof -
  let ?h = "[Quat \<lparr> qx = 1, qy = 0, qz = 0, qw = 0 \<rparr>, Arr faceNumbers]"
  have q: "element ?h 0 = Some (Quat \<lparr> qx = 1, qy = 0, qz = 0, qw = 0 \<rparr>)"
    by (simp add: element_def)
  have f: "element ?h 1 = Some (Arr faceNumbers)"
    by (simp add: element_def)
  from getCurrentValue_store_pure [OF q f] q f show ?thesis by blast
qed

subsection \<open>Roll initiation\<close>

text \<open>
  Claim C6: in a roll, the calls made on the body of each die are, in this order: the
  translation is set to the start position, which is above the floor plane; the linear
  and the angular velocity are set to zero; one impulse is applied; one torque impulse
  is applied. Every component of the torque impulse and of the impulse contains a draw
  of \<^verbatim>\<open>Math.random()\<close>. There is one such list of calls for each die.
\<close>

theorem rollDice_sequence:
  assumes "index < dice_length"
  shows "length (rollDice random dice_length n) = dice_length \<and>
     rollDice random dice_length n ! index =
       [SetTranslation
          \<lparr> vx = 10 + real index * 0.5, vy = 8 + real index * 2, vz = 10 + real index * 0.3 \<rparr> True,
        SetLinvel \<lparr> vx = 0, vy = 0, vz = 0 \<rparr> True,
        SetAngvel \<lparr> vx = 0, vy = 0, vz = 0 \<rparr> True,
        ApplyImpulse
          \<lparr> vx = - (15 + random (n + 6 * index) * 3),
            vy = 5 + random (n + 6 * index + 1) * 2,
            vz = - (15 + random (n + 6 * index) * 3) * (0.8 + random (n + 6 * index + 2) * 0.4) \<rparr> True,
        ApplyTorqueImpulse
          \<lparr> vx = (random (n + 6 * index + 3) - 0.5) * 10,
            vy = (random (n + 6 * index + 4) - 0.5) * 10,
            vz = (random (n + 6 * index + 5) - 0.5) * 10 \<rparr> True] \<and>
     floorTop < 8 + real index * 2"
proof -
  have "rollDice random dice_length n ! index = fst (rollDie random index (n + 6 * index))"
    using assms forEach_dice_nth [of index dice_length random 0 n] by (simp add: rollDice_def)
  moreover have "floorTop < 8 + real index * 2"
    by (simp add: floorTop_def)
  moreover have "length (rollDice random dice_length n) = dice_length"
    by (simp add: rollDice_def forEach_dice_length)
  ultimately show ?thesis
    by (simp add: rollDie_def reset_def applyImpulse_def applyTorque_def Let_def)
      (simp add: algebra_simps)
qed

text \<open>The second of two dice, when every draw of \<^verbatim>\<open>Math.random()\<close> is 1/2.\<close>

theorem rollDice_sequence_witness:
  "(1::nat) < 2 \<and>
   rollDice (\<lambda>k. 1 / 2) 2 0 ! 1 =
     [SetTranslation \<lparr> vx = 10.5, vy = 10, vz = 10.3 \<rparr> True,
      SetLinvel \<lparr> vx = 0, vy = 0, vz = 0 \<rparr> True,
      SetAngvel \<lparr> vx = 0, vy = 0, vz = 0 \<rparr> True,
      ApplyImpulse \<lparr> vx = - 16.5, vy = 6, vz = - 16.5 \<rparr> True,
      ApplyTorqueImpulse \<lparr> vx = 0, vy = 0, vz = 0 \<rparr> True]"
  using rollDice_sequence [of 1 2 "\<lambda>k. 1 / 2" 0] by simp

subsection \<open>Textures\<close>

text \<open>
  Claim C9: \<^verbatim>\<open>createDiceFaceTexture\<close> is memoized by the key of value and colour.
  When the key is not in the cache, the texture is generated, which creates one new
  texture object, and it is stored under the key; when the key is in the cache, the
  stored texture is returned and the state is left as it was, so no texture is created.
  Two pairs of value and colour have the same key only if they are the same pair, and a
  call changes the cache at no other key. So a second call with the same pair returns
  the very texture object of the first call without generating one, directly or after
  any number of calls for other pairs.
\<close>

theorem createDiceFaceTexture_memoized:
  "(diceFaceCache st (diceFaceCacheKey v c) = None \<longrightarrow>
      createDiceFaceTexture v c st =
        (fst (generateDiceFaceTexture v c st),
         (snd (generateDiceFaceTexture v c st))
           \<lparr> diceFaceCache := (diceFaceCache st)
                (diceFaceCacheKey v c \<mapsto> fst (generateDiceFaceTexture v c st)) \<rparr>) \<and>
      textureId (fst (createDiceFaceTexture v c st)) = textures st \<and>
      textures (snd (createDiceFaceTexture v c st)) = Suc (textures st)) \<and>
   (diceFaceCache st (diceFaceCacheKey v c) = Some t \<longrightarrow>
      createDiceFaceTexture v c st = (t, st)) \<and>
   (diceFaceCacheKey v c = diceFaceCacheKey v' c' \<longleftrightarrow> v = v' \<and> c = c') \<and>
   (\<forall>k. k \<noteq> diceFaceCacheKey v c \<longrightarrow>
      diceFaceCache (snd (createDiceFaceTexture v c st)) k = diceFaceCache st k) \<and>
   createDiceFaceTexture v c (snd (createDiceFaceTexture v c st))
     = (fst (createDiceFaceTexture v c st), snd (createDiceFaceTexture v c st)) \<and>
   createDiceFaceTexture v c (createDiceFaceTextures others (snd (createDiceFaceTexture v c st)))
     = (fst (createDiceFaceTexture v c st),
        createDiceFaceTextures others (snd (createDiceFaceTexture v c st)))"
proof (intro conjI impI allI)
  assume miss: "diceFaceCache st (diceFaceCacheKey v c) = None"
  show "createDiceFaceTexture v c st =
        (fst (generateDiceFaceTexture v c st),
         (snd (generateDiceFaceTexture v c st))
           \<lparr> diceFaceCache := (diceFaceCache st)
                (diceFaceCacheKey v c \<mapsto> fst (generateDiceFaceTexture v c st)) \<rparr>)"
    using createDiceFaceTexture_miss [OF miss] by (simp add: generateDiceFaceTexture_cache)
  show "textureId (fst (createDiceFaceTexture v c st)) = textures st"
    using createDiceFaceTexture_miss [OF miss] generateDiceFaceTexture_fresh [of v c st] by simp
  show "textures (snd (createDiceFaceTexture v c st)) = Suc (textures st)"
    using createDiceFaceTexture_miss [OF miss] generateDiceFaceTexture_fresh [of v c st] by simp
next
  assume "diceFaceCache st (diceFaceCacheKey v c) = Some t"
  then show "createDiceFaceTexture v c st = (t, st)"
    unfolding diceFaceCacheKey_def by (rule createDiceFaceTexture_hit)
next
  show "diceFaceCacheKey v c = diceFaceCacheKey v' c' \<longleftrightarrow> v = v' \<and> c = c'"
    by (rule diceFaceCacheKey_inj)
next
  fix k
  assume k: "k \<noteq> diceFaceCacheKey v c"
  show "diceFaceCache (snd (createDiceFaceTexture v c st)) k = diceFaceCache st k"
  proof (cases "diceFaceCache st (diceFaceCacheKey v c)")
    case None
    with createDiceFaceTexture_miss [OF None] k show ?thesis
      by (simp add: generateDiceFaceTexture_cache)
  next
    case (Some cached)
    then have "createDiceFaceTexture v c st = (cached, st)"
      unfolding diceFaceCacheKey_def by (rule createDiceFaceTexture_hit)
    then show ?thesis by simp
  qed
next
  show "createDiceFaceTexture v c (snd (createDiceFaceTexture v c st))
     = (fst (createDiceFaceTexture v c st), snd (createDiceFaceTexture v c st))"
    by (rule createDiceFaceTexture_hit) (rule createDiceFaceTexture_stores)
  show "createDiceFaceTexture v c (createDiceFaceTextures others (snd (createDiceFaceTexture v c st)))
     = (fst (createDiceFaceTexture v c st),
        createDiceFaceTextures others (snd (createDiceFaceTexture v c st)))"
    by (intro createDiceFaceTexture_hit createDiceFaceTextures_keeps createDiceFaceTexture_stores)
qed

text \<open>
  From the empty cache: the pink face 3 is generated as texture 0 and stored; the cyan
  face 4 has another key, is not found and is generated as texture 1; a second request
  for the pink face 3 returns the stored texture and changes nothing.
\<close>

theorem createDiceFaceTexture_memoized_witness:
  "diceFaceCache page0 (diceFaceCacheKey 3 0xff00ff) = None \<and>
   textureId (fst (createDiceFaceTexture 3 0xff00ff page0)) = 0 \<and>
   textures (snd (createDiceFaceTexture 3 0xff00ff page0)) = 1 \<and>
   diceFaceCacheKey 4 0x00ffff \<noteq> diceFaceCacheKey 3 0xff00ff \<and>
   diceFaceCache (snd (createDiceFaceTexture 3 0xff00ff page0)) (diceFaceCacheKey 4 0x00ffff) = None \<and>
   textureId (fst (createDiceFaceTexture 4 0x00ffff (snd (createDiceFaceTexture 3 0xff00ff page0)))) = 1 \<and>
   diceFaceCache (snd (createDiceFaceTexture 3 0xff00ff page0)) (diceFaceCacheKey 3 0xff00ff)
     = Some (fst (createDiceFaceTexture 3 0xff00ff page0)) \<and>
   createDiceFaceTexture 3 0xff00ff (snd (createDiceFaceTexture 3 0xff00ff page0))
     = (fst (createDiceFaceTexture 3 0xff00ff page0), snd (createDiceFaceTexture 3 0xff00ff page0))"
proof -
  let ?st1 = "snd (createDiceFaceTexture 3 0xff00ff page0)"
  let ?t1 = "fst (createDiceFaceTexture 3 0xff00ff page0)"
  have empty: "diceFaceCache page0 k = None" for k
    by (simp add: page0_def)
  have count: "textures page0 = 0"
    by (simp add: page0_def)
  note first = createDiceFaceTexture_memoized [of page0 3 "0xff00ff" ?t1 4 "0x00ffff" "[]"]
  have miss0: "diceFaceCache page0 (diceFaceCacheKey 3 0xff00ff) = None"
    by (rule empty)
  from first miss0
  have "textureId ?t1 = textures page0" and "textures ?st1 = Suc (textures page0)"
    by blast+
  with count have id1: "textureId ?t1 = 0" and n1: "textures ?st1 = 1"
    by simp_all
  from first have other: "diceFaceCacheKey 4 0x00ffff \<noteq> diceFaceCacheKey 3 0xff00ff"
    by auto
  from first other
  have "diceFaceCache ?st1 (diceFaceCacheKey 4 0x00ffff)
      = diceFaceCache page0 (diceFaceCacheKey 4 0x00ffff)"
    by blast
  with empty have miss: "diceFaceCache ?st1 (diceFaceCacheKey 4 0x00ffff) = None"
    by simp
  note second = createDiceFaceTexture_memoized [of ?st1 4 "0x00ffff" ?t1 3 "0xff00ff" "[]"]
  from second miss
  have "textureId (fst (createDiceFaceTexture 4 0x00ffff ?st1)) = textures ?st1"
    by blast
  with n1 have id2: "textureId (fst (createDiceFaceTexture 4 0x00ffff ?st1)) = 1"
    by simp
  have stored: "diceFaceCache ?st1 (diceFaceCacheKey 3 0xff00ff) = Some ?t1"
    unfolding diceFaceCacheKey_def by (rule createDiceFaceTexture_stores)
  note again = createDiceFaceTexture_memoized [of ?st1 3 "0xff00ff" ?t1 4 "0x00ffff" "[]"]
  from again stored have hit: "createDiceFaceTexture 3 0xff00ff ?st1 = (?t1, ?st1)"
    by blast
  from empty id1 n1 other miss id2 stored hit show ?thesis
    by blast
qed

text \<open>
  Claim C10: for a face value outside 1 to 6, with a 2D context available,
  \<^verbatim>\<open>generateDiceFaceTexture\<close> does not fail: it takes the default branch, passes the
  warning to the debug log and draws one pip in the centre, so the texture is the one
  of the value 1.
\<close>

theorem generateDiceFaceTexture_default:
  assumes "v \<notin> {1, 2, 3, 4, 5, 6}" and "context2d st"
  shows "generateDiceFaceTexture v c st =
     (CanvasTexture (textures st)
        \<lparr> width = 256, height = 256,
          drawn = [FillRect ''#000000'' 0 0 256 256,
                   FillArc ''white'' (hexColor c) 20 128 128 (256 / 14)] \<rparr>,
      (log_msg (''Warning: Invalid dice value '' @ toString 10 v @ '', defaulting to 1'') st)
        \<lparr> textures := Suc (textures st) \<rparr>) \<and>
   fst (generateDiceFaceTexture v c st) = fst (generateDiceFaceTexture 1 c st)"
  using assms
  by (simp add: generateDiceFaceTexture_def generateDiceFaceTexture_try_def switch_value_def
      drawPip_def Let_def)

theorem generateDiceFaceTexture_default_witness:
  "(7::int) \<notin> {1, 2, 3, 4, 5, 6} \<and> context2d (page0 \<lparr> debugEnabled := True \<rparr>) \<and>
   console (snd (generateDiceFaceTexture 7 0xff00ff (page0 \<lparr> debugEnabled := True \<rparr>)))
     = [''[DEBUG] Warning: Invalid dice value 7, defaulting to 1'']"
  using generateDiceFaceTexture_default [of 7 "page0 \<lparr> debugEnabled := True \<rparr>" "0xff00ff"]
  by (simp add: page0_def log_msg_def toString_def digits.simps digitChar_def)

end
